theory Spec2Isabelle
  imports Main
begin

section \<open>The part of log/slog that the logger package relies on\<close>

text \<open>
  The package \<open>internal/logger\<close> wraps Go's \<open>log/slog\<close>. The wrapper's behaviour is
  decided by a handful of library operations, which are modelled here the way the library
  documents them: levels are integers, an attribute is a key with a value, a handler has an
  encoding, its options and the attributes already attached with \<open>With\<close>.
  Group-valued attributes are outside the model: the wrapper never builds one.
\<close>

type_synonym Level = int

definition LevelDebug :: Level where "LevelDebug = - 4"
definition LevelInfo :: Level where "LevelInfo = 0"
definition LevelWarn :: Level where "LevelWarn = 4"
definition LevelError :: Level where "LevelError = 8"

text \<open>
  A \<open>time.Time\<close>. The zero instant is kept apart because the handlers leave the
  \<open>time\<close> field out for it; \<open>time.Now()\<close> is always an \<open>Instant\<close>.
\<close>

datatype Time = ZeroTime | Instant nat

text \<open>
  A \<open>slog.Value\<close> by kind. \<open>AnyNil\<close> is the zero \<open>Value\<close> (kind Any holding nil).
\<close>

datatype Value =
    AnyNil
  | StringValue string
  | IntValue int
  | BoolValue bool
  | DurationValue int
  | TimeValue Time
  | LevelValue Level

datatype Attr = Attr (Key: string) (Val: Value)

text \<open>\<open>slog.String(key, value)\<close>.\<close>

definition slog_String :: "string \<Rightarrow> string \<Rightarrow> Attr" where
  "slog_String k v = Attr k (StringValue v)"

text \<open>\<open>slog.Attr{}\<close> and the library's test for it.\<close>

definition zero_Attr :: Attr where
  "zero_Attr = Attr [] AnyNil"

definition isEmpty :: "Attr \<Rightarrow> bool" where
  "isEmpty a \<longleftrightarrow> Key a = [] \<and> Val a = AnyNil"

text \<open>
  \<open>slog.HandlerOptions\<close> as \<open>New\<close> fills it in. The \<open>ReplaceAttr\<close> field is a
  closure over the parameter \<open>env\<close> of \<open>New\<close> and nothing else, so the options store
  the captured \<open>env\<close> and \<open>ReplaceAttr\<close> below is the closure's body.
\<close>

record HandlerOptions =
  Level :: Level
  captured_env :: string

definition ReplaceAttr :: "string \<Rightarrow> string list \<Rightarrow> Attr \<Rightarrow> Attr" where
  "ReplaceAttr env groups a =
     (if env = ''development'' \<and> Key a = ''time'' then zero_Attr else a)"

datatype Encoding = JSON | Text

text \<open>
  A handler built by \<open>slog.NewJSONHandler\<close> or \<open>slog.NewTextHandler\<close> on standard
  output. \<open>preformattedAttrs\<close> are the attributes attached so far, already passed through
  \<open>ReplaceAttr\<close>, in the order they were attached.
\<close>

record Handler =
  enc :: Encoding
  opts :: HandlerOptions
  preformattedAttrs :: "Attr list"

record Record =
  Time :: Time
  Message :: string
  RLevel :: Level
  Attrs :: "Attr list"

text \<open>
  One line written to standard output: its encoding and its top-level fields in order.
  A \<open>JSON\<close> line is one JSON object whose keys are the keys of \<open>line_fields\<close>; a \<open>Text\<close>
  line is the sequence of \<open>key=value\<close> pairs.
\<close>

record Line =
  encoding :: Encoding
  line_fields :: "Attr list"

text \<open>
  The handler's \<open>appendAttr\<close>: the attribute goes through \<open>ReplaceAttr\<close> (with no open
  groups) and is dropped when the result is the empty attribute.
\<close>

definition appendAttr :: "Handler \<Rightarrow> Attr \<Rightarrow> Attr list" where
  "appendAttr h a =
     (let a' = ReplaceAttr (captured_env (opts h)) [] a
      in if isEmpty a' then [] else [a'])"

definition appendAttrs :: "Handler \<Rightarrow> Attr list \<Rightarrow> Attr list" where
  "appendAttrs h as = concat (map (appendAttr h) as)"

text \<open>
  A \<open>context.Context\<close> is a chain of key/value pairs over \<open>Background\<close>. Keys and values
  are interface values, so each carries its dynamic type: \<open>Str s\<close> is a \<open>string\<close>,
  \<open>CtxKey s\<close> is a \<open>ctxKey\<close> with the same underlying text, and the two are never equal.
  The nil \<open>Context\<close>, which the \<open>context\<close> package forbids passing, is not a value of
  this type.
\<close>

datatype Any = NilAny | Str string | CtxKey string | Num int

datatype Context = Background | WithValue Context Any Any

text \<open>\<open>Handler.Enabled\<close>: the context is not consulted.\<close>

definition Enabled :: "Handler \<Rightarrow> Context \<Rightarrow> Level \<Rightarrow> bool" where
  "Enabled h ctx l \<longleftrightarrow> Level (opts h) \<le> l"

text \<open>
  \<open>Handler.Handle\<close>: the built-in fields \<open>time\<close> (unless the record's time is zero),
  \<open>level\<close> and \<open>msg\<close>, then the attached attributes, then the record's own.
\<close>

definition Handle :: "Handler \<Rightarrow> Context \<Rightarrow> Record \<Rightarrow> Line" where
  "Handle h ctx r =
     \<lparr> encoding = enc h,
       line_fields =
         (if Time r = ZeroTime then [] else appendAttr h (Attr ''time'' (TimeValue (Time r))))
         @ appendAttr h (Attr ''level'' (LevelValue (RLevel r)))
         @ appendAttr h (Attr ''msg'' (StringValue (Message r)))
         @ preformattedAttrs h
         @ appendAttrs h (Attrs r) \<rparr>"

text \<open>\<open>Handler.WithAttrs\<close>, which \<open>Logger.With\<close> calls: a new handler, the old one untouched.\<close>

definition WithAttrs :: "Handler \<Rightarrow> Attr list \<Rightarrow> Handler" where
  "WithAttrs h as = h\<lparr>preformattedAttrs := preformattedAttrs h @ appendAttrs h as\<rparr>"

section \<open>Contexts\<close>

text \<open>\<open>ctx.Value(key)\<close>: the innermost value stored under an equal key, or nil.\<close>

fun Value_of :: "Context \<Rightarrow> Any \<Rightarrow> Any" where
  "Value_of Background k = NilAny"
| "Value_of (WithValue parent k v) k' = (if k' = k then v else Value_of parent k')"

definition RequestIDKey :: Any where
  "RequestIDKey = CtxKey ''request_id''"

section \<open>The process around the logger\<close>

text \<open>
  What the package's methods read from their surroundings at one call: the clock, the text
  \<open>runtime.Stack\<close> would produce after the header that starts every goroutine trace, and
  the identifier \<open>uuid.New().String()\<close> would return.
\<close>

record Runtime =
  now :: nat
  trace_rest :: string
  fresh_uuid :: string

text \<open>
  The state the methods act on: the allocated \<open>*Logger\<close> objects (a pointer is an index
  into \<open>heap\<close>), the lines written to standard output, and how often \<open>runtime.Stack\<close> ran.
  A \<open>Logger\<close> holds a \<open>*slog.Logger\<close> and that holds its handler, neither ever
  written to after construction, so the object stored is the handler.
\<close>

type_synonym LoggerPtr = nat

record World =
  heap :: "Handler list"
  stdout :: "Line list"
  stack_calls :: nat

text \<open>
  How a call ends: it returns a value, the process exits with a status, or it panics
  (here: a nil or dangling \<open>*Logger\<close> receiver).
\<close>

datatype 'a Outcome = Returns 'a World | Exits int World | Panics

definition deref :: "World \<Rightarrow> LoggerPtr \<Rightarrow> Handler option" where
  "deref w p = (if p < length (heap w) then Some (heap w ! p) else None)"

text \<open>\<open>&Logger{...}\<close>: a fresh object at the end of the heap.\<close>

definition alloc :: "Handler \<Rightarrow> World \<Rightarrow> LoggerPtr \<times> World" where
  "alloc h w = (length (heap w), w\<lparr>heap := heap w @ [h]\<rparr>)"

text \<open>\<open>runtime.Stack(buf, false)\<close> with a buffer of \<open>n\<close> bytes, as a string.\<close>

definition runtime_Stack :: "nat \<Rightarrow> Runtime \<Rightarrow> World \<Rightarrow> string \<times> World" where
  "runtime_Stack n rt w =
     (take n (''goroutine '' @ trace_rest rt), w\<lparr>stack_calls := stack_calls w + 1\<rparr>)"

text \<open>\<open>slog.NewRecord\<close> followed by \<open>Record.AddAttrs\<close>.\<close>

definition NewRecord :: "Time \<Rightarrow> Level \<Rightarrow> string \<Rightarrow> Attr list \<Rightarrow> Record" where
  "NewRecord t l msg attrs = \<lparr>Time = t, Message = msg, RLevel = l, Attrs = attrs\<rparr>"

text \<open>
  \<open>Logger.LogAttrs\<close>: nothing happens below the handler's level; otherwise a record
  stamped with \<open>time.Now()\<close> goes to the handler, which writes one line.
\<close>

definition LogAttrs :: "Handler \<Rightarrow> Context \<Rightarrow> Level \<Rightarrow> string \<Rightarrow> Attr list \<Rightarrow> Runtime \<Rightarrow> World \<Rightarrow> World" where
  "LogAttrs h ctx l msg attrs rt w =
     (if \<not> Enabled h ctx l then w
      else w\<lparr>stdout := stdout w @ [Handle h ctx (NewRecord (Instant (now rt)) l msg attrs)]\<rparr>)"

section \<open>internal/logger/logger.go\<close>

text \<open>
  \<open>New\<close>: the options carry the level and the \<open>ReplaceAttr\<close> closure; the handler is
  the JSON one for \<open>production\<close> and the text one for everything else; the wrapper is
  allocated and its address returned.
\<close>

definition New_handler :: "string \<Rightarrow> Level \<Rightarrow> Handler" where
  "New_handler env level =
     (let opts = \<lparr>Level = level, captured_env = env\<rparr>
      in if env = ''production''
         then \<lparr>enc = JSON, opts = opts, preformattedAttrs = []\<rparr>
         else \<lparr>enc = Text, opts = opts, preformattedAttrs = []\<rparr>)"

definition New :: "string \<Rightarrow> Level \<Rightarrow> World \<Rightarrow> LoggerPtr Outcome" where
  "New env level w = (case alloc (New_handler env level) w of (p, w') \<Rightarrow> Returns p w')"

text \<open>
  \<open>WithRequestID\<close>: a generated identifier goes into the context under \<open>RequestIDKey\<close>
  and onto a new wrapper as the attribute \<open>request_id\<close>. Like every method with a
  \<open>*Logger\<close> receiver it panics when the receiver points at no logger.
\<close>

definition WithRequestID :: "LoggerPtr \<Rightarrow> Context \<Rightarrow> Runtime \<Rightarrow> World \<Rightarrow> (Context \<times> LoggerPtr) Outcome" where
  "WithRequestID l ctx rt w =
     (let requestID = fresh_uuid rt;
          ctx' = WithValue ctx RequestIDKey (Str requestID)
      in case deref w l of
           None \<Rightarrow> Panics
         | Some h \<Rightarrow>
             (case alloc (WithAttrs h [slog_String ''request_id'' requestID]) w of
                (p, w') \<Rightarrow> Returns (ctx', p) w'))"

text \<open>
  \<open>GetRequestID\<close>: the type assertion \<open>.(string)\<close> succeeds on a \<open>Str\<close> only.
\<close>

definition GetRequestID :: "Context \<Rightarrow> string" where
  "GetRequestID ctx = (case Value_of ctx RequestIDKey of Str rid \<Rightarrow> rid | _ \<Rightarrow> [])"

text \<open>
  \<open>Error\<close>: the attributes grow by \<open>error\<close> when \<open>err\<close> is not nil, and then by
  \<open>stack\<close> when the logger is enabled at level Debug; one \<open>LogAttrs\<close> call at level
  Error ends it. \<open>err\<close> is \<open>None\<close> for nil and otherwise the text of \<open>err.Error()\<close>.
\<close>

definition Error :: "LoggerPtr \<Rightarrow> string \<Rightarrow> string option \<Rightarrow> Attr list \<Rightarrow> Runtime \<Rightarrow> World \<Rightarrow> unit Outcome" where
  "Error l msg err attrs rt w =
     (case deref w l of
        None \<Rightarrow> Panics
      | Some h \<Rightarrow>
          (case (case err of
                   None \<Rightarrow> (attrs, w)
                 | Some e \<Rightarrow>
                     (let attrs1 = attrs @ [slog_String ''error'' e]
                      in if Enabled h Background LevelDebug
                         then (case runtime_Stack 4096 rt w of
                                 (stack, w1) \<Rightarrow> (attrs1 @ [slog_String ''stack'' stack], w1))
                         else (attrs1, w)))
           of (attrs', w') \<Rightarrow> Returns () (LogAttrs h Background LevelError msg attrs' rt w')))"

text \<open>\<open>Fatal\<close>: \<open>Error\<close>, then \<open>os.Exit(1)\<close>.\<close>

definition Fatal :: "LoggerPtr \<Rightarrow> string \<Rightarrow> string option \<Rightarrow> Attr list \<Rightarrow> Runtime \<Rightarrow> World \<Rightarrow> unit Outcome" where
  "Fatal l msg err attrs rt w =
     (case Error l msg err attrs rt w of
        Returns u w' \<Rightarrow> Exits 1 w'
      | Exits n w' \<Rightarrow> Exits n w'
      | Panics \<Rightarrow> Panics)"

text \<open>\<open>WithComponent\<close> and \<open>WithOperation\<close>: a new wrapper with one more attribute.\<close>

definition WithComponent :: "LoggerPtr \<Rightarrow> string \<Rightarrow> World \<Rightarrow> LoggerPtr Outcome" where
  "WithComponent l component w =
     (case deref w l of
        None \<Rightarrow> Panics
      | Some h \<Rightarrow>
          (case alloc (WithAttrs h [slog_String ''component'' component]) w of
             (p, w') \<Rightarrow> Returns p w'))"

definition WithOperation :: "LoggerPtr \<Rightarrow> string \<Rightarrow> World \<Rightarrow> LoggerPtr Outcome" where
  "WithOperation l operation w =
     (case deref w l of
        None \<Rightarrow> Panics
      | Some h \<Rightarrow>
          (case alloc (WithAttrs h [slog_String ''operation'' operation]) w of
             (p, w') \<Rightarrow> Returns p w'))"

section \<open>Chains of derivations and sample states\<close>

text \<open>
  A chain of derivation calls, each applied to the wrapper the previous one returned. A
  \<open>RequestID\<close> step carries the context it is given and the surroundings it runs in.
\<close>

datatype Derivation = Component string | Operation string | RequestID Context Runtime

fun attached :: "Derivation \<Rightarrow> Attr" where
  "attached (Component c) = slog_String ''component'' c"
| "attached (Operation operation) = slog_String ''operation'' operation"
| "attached (RequestID ctx rt) = slog_String ''request_id'' (fresh_uuid rt)"

fun derive1 :: "Derivation \<Rightarrow> LoggerPtr \<Rightarrow> World \<Rightarrow> LoggerPtr Outcome" where
  "derive1 (Component c) l w = WithComponent l c w"
| "derive1 (Operation operation) l w = WithOperation l operation w"
| "derive1 (RequestID ctx rt) l w =
     (case WithRequestID l ctx rt w of
        Returns r w' \<Rightarrow> Returns (snd r) w'
      | Exits n w' \<Rightarrow> Exits n w'
      | Panics \<Rightarrow> Panics)"

fun derive :: "Derivation list \<Rightarrow> LoggerPtr \<Rightarrow> World \<Rightarrow> LoggerPtr Outcome" where
  "derive [] l w = Returns l w"
| "derive (d # ds) l w =
     (case derive1 d l w of
        Returns p w' \<Rightarrow> derive ds p w'
      | Exits n w' \<Rightarrow> Exits n w'
      | Panics \<Rightarrow> Panics)"

text \<open>The lines a step from \<open>w\<close> to \<open>w'\<close> added to standard output.\<close>

definition emitted :: "World \<Rightarrow> World \<Rightarrow> Line list" where
  "emitted w w' = drop (length (stdout w)) (stdout w')"

definition keys :: "Attr list \<Rightarrow> string set" where
  "keys as = Key ` set as"

definition keyed :: "string \<Rightarrow> Attr list \<Rightarrow> Attr list" where
  "keyed k as = filter (\<lambda>a. Key a = k) as"

text \<open>
  A request handler's first steps: derive the request's wrapper from the caller's context,
  then report an error (or die) through it. The context the caller holds is \<open>ctx\<close>.
\<close>

definition request_logs_error :: "bool \<Rightarrow> Context \<Rightarrow> LoggerPtr \<Rightarrow> string \<Rightarrow> string option \<Rightarrow> Attr list
    \<Rightarrow> Runtime \<Rightarrow> Runtime \<Rightarrow> World \<Rightarrow> unit Outcome" where
  "request_logs_error fatal ctx l msg err attrs rt rt' w =
     (case WithRequestID l ctx rt w of
        Returns r w' \<Rightarrow>
          (if fatal then Fatal (snd r) msg err attrs rt' w' else Error (snd r) msg err attrs rt' w')
      | Exits n w' \<Rightarrow> Exits n w'
      | Panics \<Rightarrow> Panics)"

text \<open>An empty process state and fixed surroundings, for the worked examples.\<close>

definition world0 :: World where
  "world0 = \<lparr>heap = [], stdout = [], stack_calls = 0\<rparr>"

definition rt0 :: Runtime where
  "rt0 = \<lparr>now = 1, trace_rest = ''1 [running]:'', fresh_uuid = ''u-1''\<rparr>"

definition world_with :: "Handler \<Rightarrow> World" where
  "world_with h = \<lparr>heap = [h], stdout = [], stack_calls = 0\<rparr>"

section \<open>What the handlers do with attributes\<close>

lemma appendAttr_slog_String:
  "k \<noteq> ''time'' \<Longrightarrow> appendAttr h (slog_String k v) = [slog_String k v]"
  by (simp add: appendAttr_def ReplaceAttr_def slog_String_def isEmpty_def)

lemma appendAttrs_Nil: "appendAttrs h [] = []"
  by (simp add: appendAttrs_def)

lemma appendAttrs_Cons: "appendAttrs h (x # xs) = appendAttr h x @ appendAttrs h xs"
  by (simp add: appendAttrs_def)

lemma keyed_appendAttr:
  "k \<noteq> ''time'' \<Longrightarrow> k \<noteq> [] \<Longrightarrow> keyed k (appendAttr h a) = keyed k [a]"
  by (auto simp: keyed_def appendAttr_def ReplaceAttr_def Let_def isEmpty_def zero_Attr_def)

lemma keyed_Cons: "keyed k (a # as) = (if Key a = k then a # keyed k as else keyed k as)"
  by (simp add: keyed_def)

lemma keyed_append: "keyed k (xs @ ys) = keyed k xs @ keyed k ys"
  by (simp add: keyed_def)

lemma keyed_appendAttrs:
  "k \<noteq> ''time'' \<Longrightarrow> k \<noteq> [] \<Longrightarrow> keyed k (appendAttrs h as) = keyed k as"
proof (induction as)
  case Nil
  then show ?case by (simp add: appendAttrs_Nil)
next
  case (Cons a as)
  have "keyed k (appendAttr h a) = keyed k [a]"
    using Cons.prems by (rule keyed_appendAttr)
  with Cons show ?case by (simp add: appendAttrs_Cons keyed_def)
qed

lemma builtin_level: "appendAttr h (Attr ''level'' v) = [Attr ''level'' v]"
  by (simp add: appendAttr_def ReplaceAttr_def isEmpty_def)

lemma builtin_msg: "appendAttr h (Attr ''msg'' v) = [Attr ''msg'' v]"
  by (simp add: appendAttr_def ReplaceAttr_def isEmpty_def)

lemma builtin_time:
  "appendAttr h (Attr ''time'' v) =
     (if captured_env (opts h) = ''development'' then [] else [Attr ''time'' v])"
  by (simp add: appendAttr_def ReplaceAttr_def isEmpty_def zero_Attr_def)

lemma line_fields_Handle:
  "line_fields (Handle h ctx (NewRecord (Instant t) l msg attrs)) =
     (if captured_env (opts h) = ''development'' then [] else [Attr ''time'' (TimeValue (Instant t))])
     @ [Attr ''level'' (LevelValue l), Attr ''msg'' (StringValue msg)]
     @ preformattedAttrs h @ appendAttrs h attrs"
  by (simp add: Handle_def NewRecord_def builtin_level builtin_msg builtin_time)

lemma keyed_stack_Handle:
  "keyed ''stack'' (line_fields (Handle h ctx (NewRecord (Instant t) l msg attrs))) =
   keyed ''stack'' (preformattedAttrs h @ attrs)"
proof -
  have a: "keyed ''stack'' (appendAttrs h attrs) = keyed ''stack'' attrs"
    by (rule keyed_appendAttrs) simp_all
  show ?thesis
    by (cases "captured_env (opts h) = ''development''")
       (simp_all add: line_fields_Handle keyed_append keyed_Cons a)
qed

lemma fst_runtime_Stack: "fst (runtime_Stack n rt w) = take n (''goroutine '' @ trace_rest rt)"
  by (simp add: runtime_Stack_def)

lemma Error_on_nil_err:
  "deref w l = Some h \<Longrightarrow>
   Error l msg None attrs rt w = Returns () (LogAttrs h Background LevelError msg attrs rt w)"
  by (simp add: Error_def)

lemma Error_err_quiet:
  "deref w l = Some h \<Longrightarrow> \<not> Level (opts h) \<le> LevelDebug \<Longrightarrow>
   Error l msg (Some e) attrs rt w =
     Returns () (LogAttrs h Background LevelError msg (attrs @ [slog_String ''error'' e]) rt w)"
  by (simp add: Error_def Enabled_def Let_def)

lemma Error_err_verbose:
  "deref w l = Some h \<Longrightarrow> Level (opts h) \<le> LevelDebug \<Longrightarrow>
   Error l msg (Some e) attrs rt w =
     Returns ()
       (LogAttrs h Background LevelError msg
          (attrs @ [slog_String ''error'' e, slog_String ''stack'' (fst (runtime_Stack 4096 rt w))])
          rt (w\<lparr>stack_calls := stack_calls w + 1\<rparr>))"
  by (simp add: Error_def Enabled_def runtime_Stack_def Let_def del: take_append)

lemma LogAttrs_on:
  "Level (opts h) \<le> l \<Longrightarrow>
   LogAttrs h ctx l msg attrs rt w =
     w\<lparr>stdout := stdout w @ [Handle h ctx (NewRecord (Instant (now rt)) l msg attrs)]\<rparr>"
  by (simp add: LogAttrs_def Enabled_def)

lemma LogAttrs_off:
  "\<not> Level (opts h) \<le> l \<Longrightarrow> LogAttrs h ctx l msg attrs rt w = w"
  by (simp add: LogAttrs_def Enabled_def)

lemma Error_returns:
  assumes "deref w l = Some h"
  shows "\<exists>as w1. Error l msg err attrs rt w = Returns () (LogAttrs h Background LevelError msg as rt w1)
           \<and> stdout w1 = stdout w"
proof (cases err)
  case None
  with assms show ?thesis by (auto simp: Error_on_nil_err)
next
  case (Some e)
  show ?thesis
  proof (cases "Level (opts h) \<le> LevelDebug")
    case True
    have s: "stdout (w\<lparr>stack_calls := stack_calls w + 1\<rparr>) = stdout w" by simp
    have "Error l msg err attrs rt w =
            Returns ()
              (LogAttrs h Background LevelError msg
                 (attrs @ [slog_String ''error'' e, slog_String ''stack'' (fst (runtime_Stack 4096 rt w))])
                 rt (w\<lparr>stack_calls := stack_calls w + 1\<rparr>))"
      unfolding Some by (rule Error_err_verbose [OF assms True])
    with s show ?thesis by blast
  next
    case False
    with Some assms show ?thesis by (auto simp: Error_err_quiet)
  qed
qed

lemma emitted_LogAttrs:
  "stdout w1 = stdout w \<Longrightarrow>
   emitted w (LogAttrs h ctx l msg as rt w1) =
     (if Level (opts h) \<le> l then [Handle h ctx (NewRecord (Instant (now rt)) l msg as)] else [])"
  by (simp add: emitted_def LogAttrs_def Enabled_def)

section \<open>Error and Fatal\<close>

text \<open>
  Claim C10. With \<open>err\<close> nil, \<open>Error\<close> hands \<open>LogAttrs\<close> the caller's attributes
  and nothing else, at every minimum level: the record that reaches the handler has exactly
  the caller's attributes as its own, no \<open>error\<close> and no \<open>stack\<close> attribute is
  added, and \<open>runtime.Stack\<close> does not run, also when debug logging is enabled. Above
  level Error the call is filtered out and the state is unchanged.
\<close>

theorem Error_nil_passes_attrs_through:
  assumes "deref w l = Some h"
  shows "Error l msg None attrs rt w =
           Returns ()
             (if Level (opts h) \<le> LevelError
              then w\<lparr>stdout := stdout w @
                     [Handle h Background (NewRecord (Instant (now rt)) LevelError msg attrs)]\<rparr>
              else w)"
  using assms by (simp add: Error_on_nil_err LogAttrs_on LogAttrs_off)

text \<open>The same at a development logger with debug logging enabled.\<close>

theorem Error_nil_passes_attrs_through_witness:
  "deref (world_with (New_handler ''development'' LevelDebug)) 0 = Some (New_handler ''development'' LevelDebug)
   \<and> Error 0 ''m'' None [slog_String ''file'' ''a.png''] rt0 (world_with (New_handler ''development'' LevelDebug)) =
       Returns ()
         \<lparr>heap = [New_handler ''development'' LevelDebug],
          stdout = [\<lparr>encoding = Text,
                     line_fields = [Attr ''level'' (LevelValue 8), Attr ''msg'' (StringValue ''m''),
                                    Attr ''file'' (StringValue ''a.png'')]\<rparr>],
          stack_calls = 0\<rparr>"
proof -
  have d: "deref (world_with (New_handler ''development'' LevelDebug)) 0 = Some (New_handler ''development'' LevelDebug)"
    by (simp add: deref_def world_with_def)
  show ?thesis
    using d Error_nil_passes_attrs_through [OF d, of "''m''" "[slog_String ''file'' ''a.png'']" rt0]
    by (simp add: world_with_def New_handler_def LevelDebug_def LevelError_def Handle_def NewRecord_def
        appendAttr_def appendAttrs_def ReplaceAttr_def isEmpty_def zero_Attr_def slog_String_def rt0_def)
qed

text \<open>
  Claim C2, as the code has it. At minimum level Info, \<open>Error\<close> writes one error-level
  line whose record carries the caller's attributes, followed by the \<open>error\<close> attribute
  when \<open>err\<close> is not nil; \<open>runtime.Stack\<close> does not run (the state changes in
  \<open>stdout\<close> only); and the \<open>stack\<close> attributes of the line are exactly those the caller
  passed or the logger already carried. \<open>Error\<close> adds none.
\<close>

theorem Error_at_Info_adds_no_stack:
  assumes "deref w l = Some h" and "Level (opts h) = LevelInfo"
  shows "Error l msg err attrs rt w =
           Returns ()
             (w\<lparr>stdout := stdout w @
                [Handle h Background (NewRecord (Instant (now rt)) LevelError msg
                   (attrs @ (case err of None \<Rightarrow> [] | Some e \<Rightarrow> [slog_String ''error'' e])))]\<rparr>)
         \<and> keyed ''stack''
              (line_fields (Handle h Background (NewRecord (Instant (now rt)) LevelError msg
                   (attrs @ (case err of None \<Rightarrow> [] | Some e \<Rightarrow> [slog_String ''error'' e])))))
            = keyed ''stack'' (preformattedAttrs h @ attrs)"
proof (cases err)
  case None
  with assms show ?thesis
    by (simp add: Error_on_nil_err LogAttrs_on keyed_stack_Handle LevelInfo_def LevelError_def)
next
  case (Some e)
  have q: "\<not> Level (opts h) \<le> LevelDebug"
    using assms(2) by (simp add: LevelInfo_def LevelDebug_def)
  have on: "Level (opts h) \<le> LevelError"
    using assms(2) by (simp add: LevelInfo_def LevelError_def)
  have k: "keyed ''stack'' [slog_String ''error'' e] = []"
    by (simp add: keyed_def slog_String_def)
  show ?thesis
    using Some assms(1) q on k
    by (simp add: Error_err_quiet LogAttrs_on keyed_stack_Handle keyed_append)
qed

text \<open>An Info-level production logger reporting an error: no \<open>stack\<close>, no capture.\<close>

theorem Error_at_Info_adds_no_stack_witness:
  "deref (world_with (New_handler ''production'' LevelInfo)) 0 = Some (New_handler ''production'' LevelInfo)
   \<and> Level (opts (New_handler ''production'' LevelInfo)) = LevelInfo
   \<and> Error 0 ''m'' (Some ''boom'') [slog_String ''file'' ''a.png''] rt0
        (world_with (New_handler ''production'' LevelInfo)) =
       Returns ()
         \<lparr>heap = [New_handler ''production'' LevelInfo],
          stdout = [\<lparr>encoding = JSON,
                     line_fields = [Attr ''time'' (TimeValue (Instant 1)),
                                    Attr ''level'' (LevelValue 8), Attr ''msg'' (StringValue ''m''),
                                    Attr ''file'' (StringValue ''a.png''),
                                    Attr ''error'' (StringValue ''boom'')]\<rparr>],
          stack_calls = 0\<rparr>"
proof -
  have d: "deref (world_with (New_handler ''production'' LevelInfo)) 0 = Some (New_handler ''production'' LevelInfo)"
    by (simp add: deref_def world_with_def)
  have i: "Level (opts (New_handler ''production'' LevelInfo)) = LevelInfo"
    by (simp add: New_handler_def)
  show ?thesis
    using d i Error_at_Info_adds_no_stack [OF d i, of "''m''" "Some ''boom''" "[slog_String ''file'' ''a.png'']" rt0]
    by (simp add: world_with_def New_handler_def LevelError_def Handle_def NewRecord_def
        appendAttr_def appendAttrs_def ReplaceAttr_def isEmpty_def zero_Attr_def slog_String_def rt0_def)
qed

text \<open>
  Claim C2 as stated fails for a caller that passes a \<open>stack\<close> attribute of its own: the
  line written at level Info carries it.
\<close>

theorem Error_at_Info_caller_stack_counterexample:
  "Level (opts (New_handler ''production'' LevelInfo)) = LevelInfo
   \<and> Error 0 ''m'' None [slog_String ''stack'' ''mine''] rt0 (world_with (New_handler ''production'' LevelInfo)) =
       Returns ()
         \<lparr>heap = [New_handler ''production'' LevelInfo],
          stdout = [\<lparr>encoding = JSON,
                     line_fields = [Attr ''time'' (TimeValue (Instant 1)),
                                    Attr ''level'' (LevelValue 8), Attr ''msg'' (StringValue ''m''),
                                    Attr ''stack'' (StringValue ''mine'')]\<rparr>],
          stack_calls = 0\<rparr>"
  by (simp add: Error_def deref_def LogAttrs_def Enabled_def world_with_def New_handler_def
      LevelInfo_def LevelError_def Handle_def NewRecord_def
      appendAttr_def appendAttrs_def ReplaceAttr_def isEmpty_def zero_Attr_def slog_String_def rt0_def)

text \<open>
  Claim C3, as the code has it. At minimum level Debug, \<open>Error\<close> with \<open>err\<close> nil writes
  the caller's attributes only and does not capture a stack, so the line's \<open>stack\<close>
  attributes are those of the caller and of the logger; with \<open>err\<close> not nil it appends the
  \<open>error\<close> attribute and then one \<open>stack\<close> attribute holding at most 4096 bytes of
  the goroutine trace, which is not empty, and \<open>runtime.Stack\<close> has run once.
\<close>

theorem Error_at_Debug_adds_stack_iff_err:
  assumes "deref w l = Some h" and "Level (opts h) = LevelDebug"
  shows "(Error l msg None attrs rt w =
           Returns ()
             (w\<lparr>stdout := stdout w @
                [Handle h Background (NewRecord (Instant (now rt)) LevelError msg attrs)]\<rparr>)
          \<and> keyed ''stack''
              (line_fields (Handle h Background (NewRecord (Instant (now rt)) LevelError msg attrs)))
            = keyed ''stack'' (preformattedAttrs h @ attrs))
       \<and> (Error l msg (Some e) attrs rt w =
           Returns ()
             (w\<lparr>stack_calls := stack_calls w + 1,
                stdout := stdout w @
                [Handle h Background (NewRecord (Instant (now rt)) LevelError msg
                   (attrs @ [slog_String ''error'' e,
                             slog_String ''stack'' (fst (runtime_Stack 4096 rt w))]))]\<rparr>)
          \<and> keyed ''stack''
              (line_fields (Handle h Background (NewRecord (Instant (now rt)) LevelError msg
                   (attrs @ [slog_String ''error'' e,
                             slog_String ''stack'' (fst (runtime_Stack 4096 rt w))]))))
            = keyed ''stack'' (preformattedAttrs h @ attrs)
              @ [slog_String ''stack'' (fst (runtime_Stack 4096 rt w))]
          \<and> fst (runtime_Stack 4096 rt w) \<noteq> [])"
proof -
  have v: "Level (opts h) \<le> LevelDebug" and on: "Level (opts h) \<le> LevelError"
    using assms(2) by (simp_all add: LevelDebug_def LevelError_def)
  have k: "keyed ''stack'' [slog_String ''error'' e, slog_String ''stack'' s] = [slog_String ''stack'' s]" for s
    by (simp add: keyed_def slog_String_def)
  have n: "fst (runtime_Stack 4096 rt w) \<noteq> []"
    by (simp add: fst_runtime_Stack)
  have a: "Error l msg None attrs rt w =
           Returns ()
             (w\<lparr>stdout := stdout w @
                [Handle h Background (NewRecord (Instant (now rt)) LevelError msg attrs)]\<rparr>)"
    using assms(1) on by (simp add: Error_on_nil_err LogAttrs_on)
  have b: "Error l msg (Some e) attrs rt w =
           Returns ()
             (w\<lparr>stack_calls := stack_calls w + 1,
                stdout := stdout w @
                [Handle h Background (NewRecord (Instant (now rt)) LevelError msg
                   (attrs @ [slog_String ''error'' e,
                             slog_String ''stack'' (fst (runtime_Stack 4096 rt w))]))]\<rparr>)"
    using assms(1) v on by (simp add: Error_err_verbose LogAttrs_on)
  show ?thesis
    using a b n by (simp add: keyed_stack_Handle keyed_append k)
qed

text \<open>The scenario of a development logger at level Debug, with and without an error.\<close>

theorem Error_at_Debug_adds_stack_iff_err_witness:
  "deref (world_with (New_handler ''development'' LevelDebug)) 0 = Some (New_handler ''development'' LevelDebug)
   \<and> Level (opts (New_handler ''development'' LevelDebug)) = LevelDebug
   \<and> Error 0 ''upload failed'' (Some ''boom'') [] rt0
        (world_with (New_handler ''development'' LevelDebug)) =
       Returns ()
         \<lparr>heap = [New_handler ''development'' LevelDebug],
          stdout = [\<lparr>encoding = Text,
                     line_fields = [Attr ''level'' (LevelValue 8),
                                    Attr ''msg'' (StringValue ''upload failed''),
                                    Attr ''error'' (StringValue ''boom''),
                                    Attr ''stack'' (StringValue ''goroutine 1 [running]:'')]\<rparr>],
          stack_calls = 1\<rparr>
   \<and> Error 0 ''upload failed'' None [] rt0
        (world_with (New_handler ''development'' LevelDebug)) =
       Returns ()
         \<lparr>heap = [New_handler ''development'' LevelDebug],
          stdout = [\<lparr>encoding = Text,
                     line_fields = [Attr ''level'' (LevelValue 8),
                                    Attr ''msg'' (StringValue ''upload failed'')]\<rparr>],
          stack_calls = 0\<rparr>"
proof -
  have d: "deref (world_with (New_handler ''development'' LevelDebug)) 0 = Some (New_handler ''development'' LevelDebug)"
    by (simp add: deref_def world_with_def)
  have i: "Level (opts (New_handler ''development'' LevelDebug)) = LevelDebug"
    by (simp add: New_handler_def)
  show ?thesis
    using d i Error_at_Debug_adds_stack_iff_err [OF d i, of "''upload failed''" "[]" rt0 "''boom''"]
    by (simp add: world_with_def New_handler_def LevelError_def Handle_def NewRecord_def runtime_Stack_def
        appendAttr_def appendAttrs_def ReplaceAttr_def isEmpty_def zero_Attr_def slog_String_def rt0_def)
qed

text \<open>
  Claim C3 as stated fails in its "absent whenever \<open>err\<close> is nil" half: a \<open>stack\<close>
  attribute passed by the caller is written although \<open>err\<close> is nil.
\<close>

theorem Error_at_Debug_nil_err_caller_stack_counterexample:
  "Level (opts (New_handler ''development'' LevelDebug)) = LevelDebug
   \<and> Error 0 ''m'' None [slog_String ''stack'' ''mine''] rt0 (world_with (New_handler ''development'' LevelDebug)) =
       Returns ()
         \<lparr>heap = [New_handler ''development'' LevelDebug],
          stdout = [\<lparr>encoding = Text,
                     line_fields = [Attr ''level'' (LevelValue 8), Attr ''msg'' (StringValue ''m''),
                                    Attr ''stack'' (StringValue ''mine'')]\<rparr>],
          stack_calls = 0\<rparr>"
  by (simp add: Error_def deref_def LogAttrs_def Enabled_def world_with_def New_handler_def
      LevelDebug_def LevelError_def Handle_def NewRecord_def
      appendAttr_def appendAttrs_def ReplaceAttr_def isEmpty_def zero_Attr_def slog_String_def rt0_def)

text \<open>
  Claim C4. On a valid logger \<open>Fatal\<close> does what \<open>Error\<close> does, ending in the same
  state, and then the process exits with status 1 instead of returning. The lines written
  meanwhile are one error-level line, or none when the minimum level lies above Error.
\<close>

theorem Fatal_is_Error_then_exit_1:
  assumes "deref w l = Some h"
  shows "\<exists>w'. Error l msg err attrs rt w = Returns () w'
              \<and> Fatal l msg err attrs rt w = Exits 1 w'
              \<and> (\<forall>u w''. Fatal l msg err attrs rt w \<noteq> Returns u w'')
              \<and> (\<exists>as. emitted w w' =
                    (if Level (opts h) \<le> LevelError
                     then [Handle h Background (NewRecord (Instant (now rt)) LevelError msg as)]
                     else []))"
proof -
  obtain as w1 where e: "Error l msg err attrs rt w = Returns () (LogAttrs h Background LevelError msg as rt w1)"
    and s: "stdout w1 = stdout w"
    using Error_returns [OF assms] by blast
  have f: "Fatal l msg err attrs rt w = Exits 1 (LogAttrs h Background LevelError msg as rt w1)"
    by (simp add: Fatal_def e)
  have g: "\<forall>u w''. Fatal l msg err attrs rt w \<noteq> Returns u w''"
    by (simp add: f)
  show ?thesis
    using e f g emitted_LogAttrs [OF s] by blast
qed

text \<open>A production logger at level Warn dying on a refused connection.\<close>

theorem Fatal_is_Error_then_exit_1_witness:
  "deref (world_with (New_handler ''production'' LevelWarn)) 0 = Some (New_handler ''production'' LevelWarn)
   \<and> Fatal 0 ''db down'' (Some ''refused'') [] rt0 (world_with (New_handler ''production'' LevelWarn)) =
       Exits 1
         \<lparr>heap = [New_handler ''production'' LevelWarn],
          stdout = [\<lparr>encoding = JSON,
                     line_fields = [Attr ''time'' (TimeValue (Instant 1)),
                                    Attr ''level'' (LevelValue 8),
                                    Attr ''msg'' (StringValue ''db down''),
                                    Attr ''error'' (StringValue ''refused'')]\<rparr>],
          stack_calls = 0\<rparr>"
proof -
  have d: "deref (world_with (New_handler ''production'' LevelWarn)) 0 = Some (New_handler ''production'' LevelWarn)"
    by (simp add: deref_def world_with_def)
  obtain w' where e: "Error 0 ''db down'' (Some ''refused'') [] rt0 (world_with (New_handler ''production'' LevelWarn)) = Returns () w'"
    and f: "Fatal 0 ''db down'' (Some ''refused'') [] rt0 (world_with (New_handler ''production'' LevelWarn)) = Exits 1 w'"
    using Fatal_is_Error_then_exit_1 [OF d, of "''db down''" "Some ''refused''" "[]" rt0] by blast
  have "w' = \<lparr>heap = [New_handler ''production'' LevelWarn],
          stdout = [\<lparr>encoding = JSON,
                     line_fields = [Attr ''time'' (TimeValue (Instant 1)),
                                    Attr ''level'' (LevelValue 8),
                                    Attr ''msg'' (StringValue ''db down''),
                                    Attr ''error'' (StringValue ''refused'')]\<rparr>],
          stack_calls = 0\<rparr>"
    using e
    by (simp add: Error_def deref_def LogAttrs_def Enabled_def world_with_def New_handler_def
      LevelDebug_def LevelWarn_def LevelError_def Handle_def NewRecord_def
      appendAttr_def appendAttrs_def ReplaceAttr_def isEmpty_def zero_Attr_def slog_String_def rt0_def)
  with d f show ?thesis by simp
qed

section \<open>Allocation, derivation and the request identifier\<close>

lemma WithAttrs_one:
  "k \<noteq> ''time'' \<Longrightarrow>
   WithAttrs h [slog_String k v] = h\<lparr>preformattedAttrs := preformattedAttrs h @ [slog_String k v]\<rparr>"
  by (simp add: WithAttrs_def appendAttrs_Cons appendAttrs_Nil appendAttr_slog_String)

lemma WithRequestID_returns:
  "deref w l = Some h \<Longrightarrow>
   WithRequestID l ctx rt w =
     Returns (WithValue ctx RequestIDKey (Str (fresh_uuid rt)),
              fst (alloc (h\<lparr>preformattedAttrs := preformattedAttrs h @ [slog_String ''request_id'' (fresh_uuid rt)]\<rparr>) w))
       (snd (alloc (h\<lparr>preformattedAttrs := preformattedAttrs h @ [slog_String ''request_id'' (fresh_uuid rt)]\<rparr>) w))"
  by (simp add: WithRequestID_def Let_def WithAttrs_one split: prod.split)

lemma WithComponent_returns:
  "deref w l = Some h \<Longrightarrow>
   WithComponent l c w =
     Returns (fst (alloc (h\<lparr>preformattedAttrs := preformattedAttrs h @ [slog_String ''component'' c]\<rparr>) w))
       (snd (alloc (h\<lparr>preformattedAttrs := preformattedAttrs h @ [slog_String ''component'' c]\<rparr>) w))"
  by (simp add: WithComponent_def WithAttrs_one split: prod.split)

lemma WithOperation_returns:
  "deref w l = Some h \<Longrightarrow>
   WithOperation l c w =
     Returns (fst (alloc (h\<lparr>preformattedAttrs := preformattedAttrs h @ [slog_String ''operation'' c]\<rparr>) w))
       (snd (alloc (h\<lparr>preformattedAttrs := preformattedAttrs h @ [slog_String ''operation'' c]\<rparr>) w))"
  by (simp add: WithOperation_def WithAttrs_one split: prod.split)

lemma GetRequestID_stored: "GetRequestID (WithValue ctx RequestIDKey (Str s)) = s"
  by (simp add: GetRequestID_def)

lemma alloc_props:
  "deref (snd (alloc h' w)) (fst (alloc h' w)) = Some h'"
  "deref w (fst (alloc h' w)) = None"
  "stdout (snd (alloc h' w)) = stdout w"
  "\<forall>q g. deref w q = Some g \<longrightarrow> deref (snd (alloc h' w)) q = Some g"
  by (auto simp: deref_def alloc_def nth_append split: if_splits)

lemma derive1_returns:
  assumes "deref w l = Some h"
  shows "derive1 d l w =
     Returns (fst (alloc (h\<lparr>preformattedAttrs := preformattedAttrs h @ [attached d]\<rparr>) w))
       (snd (alloc (h\<lparr>preformattedAttrs := preformattedAttrs h @ [attached d]\<rparr>) w))"
  by (cases d) (simp_all add: WithComponent_returns [OF assms] WithOperation_returns [OF assms]
      WithRequestID_returns [OF assms])

lemma derive_returns:
  "deref w l = Some h \<Longrightarrow>
   \<exists>p w'. derive ds l w = Returns p w'
     \<and> deref w' p = Some (h\<lparr>preformattedAttrs := preformattedAttrs h @ map attached ds\<rparr>)
     \<and> stdout w' = stdout w
     \<and> (\<forall>q g. deref w q = Some g \<longrightarrow> deref w' q = Some g)"
proof (induction ds arbitrary: l w h)
  case Nil
  then show ?case by simp
next
  case (Cons d ds)
  let ?h1 = "h\<lparr>preformattedAttrs := preformattedAttrs h @ [attached d]\<rparr>"
  let ?p1 = "fst (alloc ?h1 w)"
  let ?w1 = "snd (alloc ?h1 w)"
  have step: "derive1 d l w = Returns ?p1 ?w1"
    using Cons.prems by (rule derive1_returns)
  have d1: "deref ?w1 ?p1 = Some ?h1" by (rule alloc_props(1))
  obtain p w' where r: "derive ds ?p1 ?w1 = Returns p w'"
    and h': "deref w' p = Some (?h1\<lparr>preformattedAttrs := preformattedAttrs ?h1 @ map attached ds\<rparr>)"
    and s: "stdout w' = stdout ?w1"
    and o: "\<forall>q g. deref ?w1 q = Some g \<longrightarrow> deref w' q = Some g"
    using Cons.IH [OF d1] by blast
  have "derive (d # ds) l w = Returns p w'" by (simp add: step r)
  moreover have "deref w' p = Some (h\<lparr>preformattedAttrs := preformattedAttrs h @ map attached (d # ds)\<rparr>)"
    using h' by simp
  moreover have "stdout w' = stdout w" using s by (simp add: alloc_props(3))
  moreover have "\<forall>q g. deref w q = Some g \<longrightarrow> deref w' q = Some g"
    using o alloc_props(4) [of w ?h1] by blast
  ultimately show ?case by blast
qed

lemma set_line_fields_WithAttrs:
  "set (line_fields (Handle (h\<lparr>preformattedAttrs := preformattedAttrs h @ xs\<rparr>) ctx r)) =
   set (line_fields (Handle h ctx r)) \<union> set xs"
  by (auto simp: Handle_def appendAttr_def appendAttrs_def)

text \<open>
  Claim C5. On a valid logger \<open>WithRequestID\<close> returns a context and a new wrapper;
  \<open>GetRequestID\<close> on that context gives the generated identifier, and the new wrapper is
  the receiver's handler with one more bound attribute, \<open>request_id\<close>, holding that same
  string.
\<close>

theorem WithRequestID_roundtrip:
  assumes "deref w l = Some h"
  shows "\<exists>ctx' l' w'.
           WithRequestID l ctx rt w = Returns (ctx', l') w'
           \<and> GetRequestID ctx' = fresh_uuid rt
           \<and> deref w' l' =
               Some (h\<lparr>preformattedAttrs :=
                          preformattedAttrs h @ [slog_String ''request_id'' (GetRequestID ctx')]\<rparr>)"
  unfolding WithRequestID_returns [OF assms]
  by (simp add: GetRequestID_stored alloc_props(1))

text \<open>
  A production logger and the background context, with \<open>u-1\<close> as the identifier.
\<close>

theorem WithRequestID_roundtrip_witness:
  "deref (world_with (New_handler ''production'' LevelInfo)) 0 = Some (New_handler ''production'' LevelInfo)
   \<and> WithRequestID 0 Background rt0 (world_with (New_handler ''production'' LevelInfo)) =
       Returns (WithValue Background (CtxKey ''request_id'') (Str ''u-1''), 1)
         \<lparr>heap = [New_handler ''production'' LevelInfo,
                  \<lparr>enc = JSON, opts = \<lparr>Level = 0, captured_env = ''production''\<rparr>,
                   preformattedAttrs = [Attr ''request_id'' (StringValue ''u-1'')]\<rparr>],
          stdout = [], stack_calls = 0\<rparr>
   \<and> GetRequestID (WithValue Background (CtxKey ''request_id'') (Str ''u-1'')) = ''u-1''"
proof -
  have d: "deref (world_with (New_handler ''production'' LevelInfo)) 0 = Some (New_handler ''production'' LevelInfo)"
    by (simp add: deref_def world_with_def)
  obtain ctx' l' w' where
    r: "WithRequestID 0 Background rt0 (world_with (New_handler ''production'' LevelInfo)) = Returns (ctx', l') w'"
    and g: "GetRequestID ctx' = fresh_uuid rt0"
    using WithRequestID_roundtrip [OF d, of Background rt0] by blast
  have e: "WithRequestID 0 Background rt0 (world_with (New_handler ''production'' LevelInfo)) =
       Returns (WithValue Background (CtxKey ''request_id'') (Str ''u-1''), 1)
         \<lparr>heap = [New_handler ''production'' LevelInfo,
                  \<lparr>enc = JSON, opts = \<lparr>Level = 0, captured_env = ''production''\<rparr>,
                   preformattedAttrs = [Attr ''request_id'' (StringValue ''u-1'')]\<rparr>],
          stdout = [], stack_calls = 0\<rparr>"
    by (simp add: WithRequestID_def Let_def deref_def alloc_def world_with_def New_handler_def WithAttrs_def
        RequestIDKey_def LevelInfo_def
        appendAttr_def appendAttrs_def ReplaceAttr_def isEmpty_def zero_Attr_def slog_String_def rt0_def)
  from r e have "ctx' = WithValue Background (CtxKey ''request_id'') (Str ''u-1'')" by simp
  with g have "GetRequestID (WithValue Background (CtxKey ''request_id'') (Str ''u-1'')) = ''u-1''"
    by (simp add: rt0_def)
  with d e show ?thesis by simp
qed

text \<open>
  Claim C6. \<open>GetRequestID\<close> is total and gives the empty string when nothing is stored
  under \<open>RequestIDKey\<close> and when what is stored there is not a \<open>string\<close>. A value stored
  under the plain string \<open>request_id\<close> is never seen: the lookup key has type \<open>ctxKey\<close>,
  which no \<open>string\<close> equals.
\<close>

theorem GetRequestID_degrades_to_empty:
  "(Value_of ctx RequestIDKey = NilAny \<longrightarrow> GetRequestID ctx = [])
   \<and> ((\<forall>s. Value_of ctx RequestIDKey \<noteq> Str s) \<longrightarrow> GetRequestID ctx = [])
   \<and> GetRequestID (WithValue ctx (Str ''request_id'') v) = GetRequestID ctx
   \<and> GetRequestID (WithValue Background (Str ''request_id'') v) = []"
  by (auto simp: GetRequestID_def RequestIDKey_def split: Any.splits)

text \<open>
  A context holding the plain string key, and one holding a number under the real key.
\<close>

theorem GetRequestID_degrades_to_empty_witness:
  "Value_of (WithValue Background (Str ''request_id'') (Str ''abc'')) RequestIDKey = NilAny
   \<and> GetRequestID (WithValue Background (Str ''request_id'') (Str ''abc'')) = []
   \<and> (\<forall>s. Value_of (WithValue Background RequestIDKey (Num 42)) RequestIDKey \<noteq> Str s)
   \<and> GetRequestID (WithValue Background RequestIDKey (Num 42)) = []"
proof -
  have a: "Value_of (WithValue Background (Str ''request_id'') (Str ''abc'')) RequestIDKey = NilAny"
    by (simp add: RequestIDKey_def)
  have b: "\<forall>s. Value_of (WithValue Background RequestIDKey (Num 42)) RequestIDKey \<noteq> Str s"
    by simp
  show ?thesis
    using a b
      GetRequestID_degrades_to_empty [of "WithValue Background (Str ''request_id'') (Str ''abc'')"]
      GetRequestID_degrades_to_empty [of "WithValue Background RequestIDKey (Num 42)"]
    by blast
qed

text \<open>
  Claim C7. Each derivation (\<open>WithComponent\<close>, \<open>WithOperation\<close>, \<open>WithRequestID\<close>)
  on a valid logger returns a freshly allocated wrapper whose bound attributes include all of
  the receiver's, and leaves the receiver, like every other wrapper allocated before, as it
  was.
\<close>

theorem derivation_extends_and_leaves_receiver:
  assumes "deref w l = Some h"
  shows "\<exists>p w' h'. derive1 d l w = Returns p w'
           \<and> deref w' p = Some h'
           \<and> set (preformattedAttrs h) \<subseteq> set (preformattedAttrs h')
           \<and> deref w' l = Some h
           \<and> deref w p = None
           \<and> (\<forall>q g. deref w q = Some g \<longrightarrow> deref w' q = Some g)"
proof -
  let ?h1 = "h\<lparr>preformattedAttrs := preformattedAttrs h @ [attached d]\<rparr>"
  have "derive1 d l w = Returns (fst (alloc ?h1 w)) (snd (alloc ?h1 w))"
    using assms by (rule derive1_returns)
  moreover have "set (preformattedAttrs h) \<subseteq> set (preformattedAttrs ?h1)" by auto
  moreover have "deref (snd (alloc ?h1 w)) l = Some h"
    using assms alloc_props(4) [of w ?h1] by blast
  ultimately show ?thesis
    using alloc_props(1) [of ?h1 w] alloc_props(2) [of w ?h1] alloc_props(4) [of w ?h1] by blast
qed

text \<open>
  Attaching a component to a production logger: the receiver at address 0 keeps its empty
  attribute list, the new wrapper sits at address 1.
\<close>

theorem derivation_extends_and_leaves_receiver_witness:
  "deref (world_with (New_handler ''production'' LevelInfo)) 0 = Some (New_handler ''production'' LevelInfo)
   \<and> derive1 (Component ''uploader'') 0 (world_with (New_handler ''production'' LevelInfo)) =
       Returns 1
         \<lparr>heap = [New_handler ''production'' LevelInfo,
                  \<lparr>enc = JSON, opts = \<lparr>Level = 0, captured_env = ''production''\<rparr>,
                   preformattedAttrs = [Attr ''component'' (StringValue ''uploader'')]\<rparr>],
          stdout = [], stack_calls = 0\<rparr>
   \<and> (\<exists>p w' h'. derive1 (Component ''uploader'') 0 (world_with (New_handler ''production'' LevelInfo)) = Returns p w'
           \<and> deref w' p = Some h'
           \<and> set (preformattedAttrs (New_handler ''production'' LevelInfo)) \<subseteq> set (preformattedAttrs h')
           \<and> deref w' 0 = Some (New_handler ''production'' LevelInfo)
           \<and> deref (world_with (New_handler ''production'' LevelInfo)) p = None)"
proof -
  have d: "deref (world_with (New_handler ''production'' LevelInfo)) 0 = Some (New_handler ''production'' LevelInfo)"
    by (simp add: deref_def world_with_def)
  have c: "derive1 (Component ''uploader'') 0 (world_with (New_handler ''production'' LevelInfo)) =
       Returns 1
         \<lparr>heap = [New_handler ''production'' LevelInfo,
                  \<lparr>enc = JSON, opts = \<lparr>Level = 0, captured_env = ''production''\<rparr>,
                   preformattedAttrs = [Attr ''component'' (StringValue ''uploader'')]\<rparr>],
          stdout = [], stack_calls = 0\<rparr>"
    by (simp add: WithComponent_def deref_def alloc_def world_with_def New_handler_def WithAttrs_def LevelInfo_def
        appendAttr_def appendAttrs_def ReplaceAttr_def isEmpty_def zero_Attr_def slog_String_def)
  show ?thesis
    using d c derivation_extends_and_leaves_receiver [OF d, of "Component ''uploader''"]
    by blast
qed

text \<open>
  Claim C8. After any chain of derivations the bound attributes are, as a set, the
  ancestor's together with everything attached, and so are the attributes of a line written
  through the final wrapper compared with the same line written through the ancestor.
  In particular component-then-operation and operation-then-component write the same set.
\<close>

theorem derive_attaches_union:
  assumes "deref w l = Some h"
  shows "(\<exists>p w' h'. derive ds l w = Returns p w' \<and> deref w' p = Some h'
            \<and> set (preformattedAttrs h') = set (preformattedAttrs h) \<union> attached ` set ds
            \<and> set (line_fields (Handle h' ctx r)) = set (line_fields (Handle h ctx r)) \<union> attached ` set ds)
       \<and> (\<exists>p1 w1 h1 p2 w2 h2.
              derive [Component c, Operation operation] l w = Returns p1 w1 \<and> deref w1 p1 = Some h1
            \<and> derive [Operation operation, Component c] l w = Returns p2 w2 \<and> deref w2 p2 = Some h2
            \<and> set (line_fields (Handle h1 ctx r)) = set (line_fields (Handle h2 ctx r)))"
proof (intro conjI)
  obtain p w' where "derive ds l w = Returns p w'"
    and "deref w' p = Some (h\<lparr>preformattedAttrs := preformattedAttrs h @ map attached ds\<rparr>)"
    using derive_returns [OF assms] by blast
  moreover have "set (preformattedAttrs (h\<lparr>preformattedAttrs := preformattedAttrs h @ map attached ds\<rparr>))
      = set (preformattedAttrs h) \<union> attached ` set ds" by simp
  moreover have "set (line_fields (Handle (h\<lparr>preformattedAttrs := preformattedAttrs h @ map attached ds\<rparr>) ctx r))
      = set (line_fields (Handle h ctx r)) \<union> attached ` set ds"
    by (simp add: set_line_fields_WithAttrs)
  ultimately show "\<exists>p w' h'. derive ds l w = Returns p w' \<and> deref w' p = Some h'
            \<and> set (preformattedAttrs h') = set (preformattedAttrs h) \<union> attached ` set ds
            \<and> set (line_fields (Handle h' ctx r)) = set (line_fields (Handle h ctx r)) \<union> attached ` set ds"
    by blast
next
  obtain p1 w1 where a: "derive [Component c, Operation operation] l w = Returns p1 w1"
    and a': "deref w1 p1 = Some (h\<lparr>preformattedAttrs := preformattedAttrs h @ map attached [Component c, Operation operation]\<rparr>)"
    using derive_returns [OF assms] by blast
  obtain p2 w2 where b: "derive [Operation operation, Component c] l w = Returns p2 w2"
    and b': "deref w2 p2 = Some (h\<lparr>preformattedAttrs := preformattedAttrs h @ map attached [Operation operation, Component c]\<rparr>)"
    using derive_returns [OF assms] by blast
  have "set (line_fields (Handle (h\<lparr>preformattedAttrs := preformattedAttrs h @ map attached [Component c, Operation operation]\<rparr>) ctx r))
      = set (line_fields (Handle (h\<lparr>preformattedAttrs := preformattedAttrs h @ map attached [Operation operation, Component c]\<rparr>) ctx r))"
    unfolding set_line_fields_WithAttrs by auto
  with a a' b b' show "\<exists>p1 w1 h1 p2 w2 h2.
              derive [Component c, Operation operation] l w = Returns p1 w1 \<and> deref w1 p1 = Some h1
            \<and> derive [Operation operation, Component c] l w = Returns p2 w2 \<and> deref w2 p2 = Some h2
            \<and> set (line_fields (Handle h1 ctx r)) = set (line_fields (Handle h2 ctx r))"
    by blast
qed

text \<open>
  A production logger given a component and an operation, in both orders.
\<close>

theorem derive_attaches_union_witness:
  "deref (world_with (New_handler ''production'' LevelInfo)) 0 = Some (New_handler ''production'' LevelInfo)
   \<and> (\<exists>p1 w1 h1 p2 w2 h2.
        derive [Component ''uploader'', Operation ''put''] 0 (world_with (New_handler ''production'' LevelInfo)) = Returns p1 w1
      \<and> deref w1 p1 = Some h1
      \<and> derive [Operation ''put'', Component ''uploader''] 0 (world_with (New_handler ''production'' LevelInfo)) = Returns p2 w2
      \<and> deref w2 p2 = Some h2
      \<and> set (line_fields (Handle h1 Background (NewRecord (Instant 1) LevelError ''m'' []))) =
        set (line_fields (Handle h2 Background (NewRecord (Instant 1) LevelError ''m'' []))))
   \<and> (\<exists>p w' h'.
        derive [Component ''uploader'', Operation ''put''] 0 (world_with (New_handler ''production'' LevelInfo)) = Returns p w'
      \<and> deref w' p = Some h'
      \<and> set (preformattedAttrs h') =
          {Attr ''component'' (StringValue ''uploader''), Attr ''operation'' (StringValue ''put'')}
      \<and> set (line_fields (Handle h' Background (NewRecord (Instant 1) LevelError ''m'' []))) =
          {Attr ''time'' (TimeValue (Instant 1)), Attr ''level'' (LevelValue 8), Attr ''msg'' (StringValue ''m''),
           Attr ''component'' (StringValue ''uploader''), Attr ''operation'' (StringValue ''put'')})"
proof -
  have d: "deref (world_with (New_handler ''production'' LevelInfo)) 0 = Some (New_handler ''production'' LevelInfo)"
    by (simp add: deref_def world_with_def)
  have b: "set (line_fields (Handle (New_handler ''production'' LevelInfo) Background (NewRecord (Instant 1) LevelError ''m'' []))) =
     {Attr ''time'' (TimeValue (Instant 1)), Attr ''level'' (LevelValue 8), Attr ''msg'' (StringValue ''m'')}"
    by (simp add: Handle_def NewRecord_def New_handler_def LevelError_def
        appendAttr_def appendAttrs_def ReplaceAttr_def isEmpty_def zero_Attr_def)
  have a: "attached ` set [Component ''uploader'', Operation ''put''] =
     {Attr ''component'' (StringValue ''uploader''), Attr ''operation'' (StringValue ''put'')}"
    by (simp add: slog_String_def)
  have e: "preformattedAttrs (New_handler ''production'' LevelInfo) = []"
    by (simp add: New_handler_def)
  note t = derive_attaches_union [OF d, of "[Component ''uploader'', Operation ''put'']" Background
      "NewRecord (Instant 1) LevelError ''m'' []" "''uploader''" "''put''"]
  from t have t2: "\<exists>p1 w1 h1 p2 w2 h2.
        derive [Component ''uploader'', Operation ''put''] 0 (world_with (New_handler ''production'' LevelInfo)) = Returns p1 w1
      \<and> deref w1 p1 = Some h1
      \<and> derive [Operation ''put'', Component ''uploader''] 0 (world_with (New_handler ''production'' LevelInfo)) = Returns p2 w2
      \<and> deref w2 p2 = Some h2
      \<and> set (line_fields (Handle h1 Background (NewRecord (Instant 1) LevelError ''m'' []))) =
        set (line_fields (Handle h2 Background (NewRecord (Instant 1) LevelError ''m'' [])))"
    by (rule conjunct2)
  from t have "\<exists>p w' h'.
        derive [Component ''uploader'', Operation ''put''] 0 (world_with (New_handler ''production'' LevelInfo)) = Returns p w'
      \<and> deref w' p = Some h'
      \<and> set (preformattedAttrs h') = set (preformattedAttrs (New_handler ''production'' LevelInfo))
            \<union> attached ` set [Component ''uploader'', Operation ''put'']
      \<and> set (line_fields (Handle h' Background (NewRecord (Instant 1) LevelError ''m'' []))) =
          set (line_fields (Handle (New_handler ''production'' LevelInfo) Background (NewRecord (Instant 1) LevelError ''m'' [])))
            \<union> attached ` set [Component ''uploader'', Operation ''put'']"
    by (rule conjunct1)
  then have t1: "\<exists>p w' h'.
        derive [Component ''uploader'', Operation ''put''] 0 (world_with (New_handler ''production'' LevelInfo)) = Returns p w'
      \<and> deref w' p = Some h'
      \<and> set (preformattedAttrs h') =
          {Attr ''component'' (StringValue ''uploader''), Attr ''operation'' (StringValue ''put'')}
      \<and> set (line_fields (Handle h' Background (NewRecord (Instant 1) LevelError ''m'' []))) =
          {Attr ''time'' (TimeValue (Instant 1)), Attr ''level'' (LevelValue 8), Attr ''msg'' (StringValue ''m''),
           Attr ''component'' (StringValue ''uploader''), Attr ''operation'' (StringValue ''put'')}"
    unfolding a b e by (simp add: insert_commute Un_commute)
  from d t1 t2 show ?thesis by blast
qed

text \<open>
  Claim C9. Two runs that differ only in the context the caller holds write the same
  lines and end the same way, for \<open>Error\<close> and for \<open>Fatal\<close>: the context reaches
  neither of them, and the library's level check and line writing ignore the context they
  are handed.
\<close>

theorem Error_ignores_caller_context:
  "request_logs_error fatal ctx1 l msg err attrs rt rt' w =
   request_logs_error fatal ctx2 l msg err attrs rt rt' w
   \<and> Enabled h ctx1 lv = Enabled h ctx2 lv
   \<and> LogAttrs h ctx1 lv msg attrs rt w = LogAttrs h ctx2 lv msg attrs rt w"
  by (cases "deref w l")
     (simp_all add: request_logs_error_def WithRequestID_def Let_def Enabled_def LogAttrs_def Handle_def
        split: prod.split)

text \<open>
  The same error reported under the background context and under one carrying a tenant.
\<close>

theorem Error_ignores_caller_context_witness:
  "request_logs_error False Background 0 ''m'' (Some ''boom'') [] rt0 rt0 (world_with (New_handler ''production'' LevelInfo)) =
   request_logs_error False (WithValue Background (Str ''tenant'') (Str ''acme'')) 0 ''m'' (Some ''boom'') [] rt0 rt0
     (world_with (New_handler ''production'' LevelInfo))"
  using Error_ignores_caller_context [of False Background 0 "''m''" "Some ''boom''" "[]" rt0 rt0
      "world_with (New_handler ''production'' LevelInfo)" "WithValue Background (Str ''tenant'') (Str ''acme'')"]
  by blast

section \<open>The time field by environment\<close>

lemma no_time_appendAttr:
  "captured_env (opts h) = ''development'' \<Longrightarrow> ''time'' \<notin> keys (appendAttr h a)"
  by (simp add: keys_def appendAttr_def ReplaceAttr_def Let_def isEmpty_def zero_Attr_def)

lemma keys_append: "keys (xs @ ys) = keys xs \<union> keys ys"
  by (auto simp: keys_def)

lemma keys_Cons: "keys (x # xs) = insert (Key x) (keys xs)"
  by (simp add: keys_def)

lemma keys_Nil: "keys [] = {}"
  by (simp add: keys_def)

lemma no_time_appendAttrs:
  "captured_env (opts h) = ''development'' \<Longrightarrow> ''time'' \<notin> keys (appendAttrs h as)"
  by (induction as) (simp_all add: appendAttrs_Nil appendAttrs_Cons keys_append keys_Nil no_time_appendAttr)

lemma no_time_attached: "''time'' \<notin> keys (map attached ds)"
proof (induction ds)
  case Nil
  then show ?case by (simp add: keys_Nil)
next
  case (Cons d ds)
  then show ?case by (cases d) (simp_all add: keys_Cons slog_String_def)
qed

lemma New_returns: "New env level w0 = Returns (fst (alloc (New_handler env level) w0)) (snd (alloc (New_handler env level) w0))"
  by (simp add: New_def split: prod.split)

lemma New_handler_fields:
  "enc (New_handler env level) = (if env = ''production'' then JSON else Text)"
  "opts (New_handler env level) = \<lparr>Level = level, captured_env = env\<rparr>"
  "preformattedAttrs (New_handler env level) = []"
  by (simp_all add: New_handler_def Let_def)

lemma time_key_of_line:
  assumes "enc h = (if env = ''production'' then JSON else Text)"
    and "captured_env (opts h) = env"
    and "''time'' \<notin> keys (preformattedAttrs h)"
  shows "encoding (Handle h ctx (NewRecord (Instant t) l msg attrs)) = (if env = ''production'' then JSON else Text)"
    and "env = ''development'' \<Longrightarrow> ''time'' \<notin> keys (line_fields (Handle h ctx (NewRecord (Instant t) l msg attrs)))"
    and "env \<noteq> ''development'' \<Longrightarrow> ''time'' \<in> keys (line_fields (Handle h ctx (NewRecord (Instant t) l msg attrs)))"
proof -
  show "encoding (Handle h ctx (NewRecord (Instant t) l msg attrs)) = (if env = ''production'' then JSON else Text)"
    using assms(1) by (simp add: Handle_def)
  show "''time'' \<notin> keys (line_fields (Handle h ctx (NewRecord (Instant t) l msg attrs)))"
    if "env = ''development''"
    using that assms(2,3) no_time_appendAttrs [of h attrs]
    by (simp add: line_fields_Handle keys_append keys_Cons keys_Nil)
  show "''time'' \<in> keys (line_fields (Handle h ctx (NewRecord (Instant t) l msg attrs)))"
    if "env \<noteq> ''development''"
    using that assms(2)
    by (simp add: line_fields_Handle keys_append keys_Cons keys_Nil)
qed

text \<open>
  Claim C1, as the code has it. For a logger made by \<open>New env level\<close> and any chain of
  derivations, a \<open>LogAttrs\<close> call writes one line when its level is enabled and none
  otherwise. With \<open>env\<close> equal to \<open>production\<close> the line is JSON-encoded and has the key
  \<open>time\<close>; with \<open>env\<close> equal to \<open>development\<close> it is text and has no key \<open>time\<close>;
  with any other \<open>env\<close> it is text and has the key \<open>time\<close>, because \<open>ReplaceAttr\<close>
  drops the field for \<open>development\<close> only.
\<close>

theorem time_key_by_environment:
  "\<exists>p0 w1 p w h.
      New env level w0 = Returns p0 w1 \<and> derive ds p0 w1 = Returns p w \<and> deref w p = Some h
    \<and> emitted w (LogAttrs h ctx l msg attrs rt w) =
        (if level \<le> l then [Handle h ctx (NewRecord (Instant (now rt)) l msg attrs)] else [])
    \<and> (env = ''production'' \<longrightarrow>
          encoding (Handle h ctx (NewRecord (Instant (now rt)) l msg attrs)) = JSON
        \<and> ''time'' \<in> keys (line_fields (Handle h ctx (NewRecord (Instant (now rt)) l msg attrs))))
    \<and> (env = ''development'' \<longrightarrow>
          encoding (Handle h ctx (NewRecord (Instant (now rt)) l msg attrs)) = Text
        \<and> ''time'' \<notin> keys (line_fields (Handle h ctx (NewRecord (Instant (now rt)) l msg attrs))))
    \<and> (env \<noteq> ''production'' \<and> env \<noteq> ''development'' \<longrightarrow>
          encoding (Handle h ctx (NewRecord (Instant (now rt)) l msg attrs)) = Text
        \<and> ''time'' \<in> keys (line_fields (Handle h ctx (NewRecord (Instant (now rt)) l msg attrs))))"
proof -
  let ?base = "New_handler env level"
  let ?pb = "fst (alloc ?base w0)"
  let ?wb = "snd (alloc ?base w0)"
  let ?h = "?base\<lparr>preformattedAttrs := preformattedAttrs ?base @ map attached ds\<rparr>"
  let ?ln = "Handle ?h ctx (NewRecord (Instant (now rt)) l msg attrs)"
  have n: "New env level w0 = Returns ?pb ?wb" by (rule New_returns)
  have d0: "deref ?wb ?pb = Some ?base" by (rule alloc_props(1))
  obtain p w where r: "derive ds ?pb ?wb = Returns p w" and dh: "deref w p = Some ?h"
    using derive_returns [OF d0] by blast
  have e: "enc ?h = (if env = ''production'' then JSON else Text)"
    and c: "captured_env (opts ?h) = env" and lv: "Level (opts ?h) = level"
    and t: "''time'' \<notin> keys (preformattedAttrs ?h)"
    by (simp_all add: New_handler_fields no_time_attached)
  have em: "emitted w (LogAttrs ?h ctx l msg attrs rt w) = (if level \<le> l then [?ln] else [])"
    using emitted_LogAttrs [of w w ?h ctx l msg attrs rt] lv by simp
  have k1: "encoding ?ln = (if env = ''production'' then JSON else Text)"
    using e c t by (rule time_key_of_line(1))
  have k2: "env = ''development'' \<Longrightarrow> ''time'' \<notin> keys (line_fields ?ln)"
    using e c t by (rule time_key_of_line(2))
  have k3: "env \<noteq> ''development'' \<Longrightarrow> ''time'' \<in> keys (line_fields ?ln)"
    using e c t by (rule time_key_of_line(3))
  have "(env = ''production'' \<longrightarrow> encoding ?ln = JSON \<and> ''time'' \<in> keys (line_fields ?ln))
      \<and> (env = ''development'' \<longrightarrow> encoding ?ln = Text \<and> ''time'' \<notin> keys (line_fields ?ln))
      \<and> (env \<noteq> ''production'' \<and> env \<noteq> ''development'' \<longrightarrow>
            encoding ?ln = Text \<and> ''time'' \<in> keys (line_fields ?ln))"
    using k1 k2 k3 by auto
  with n r dh em show ?thesis by blast
qed

text \<open>
  The development scenario: a debug-level logger with a component attached drops both the
  built-in \<open>time\<close> field and a caller's attribute of that name.
\<close>

theorem time_key_by_environment_witness:
  "\<exists>p0 w1 p w h.
      New ''development'' LevelDebug world0 = Returns p0 w1
    \<and> derive [Component ''uploader''] p0 w1 = Returns p w \<and> deref w p = Some h
    \<and> h = \<lparr>enc = Text, opts = \<lparr>Level = - 4, captured_env = ''development''\<rparr>,
            preformattedAttrs = [Attr ''component'' (StringValue ''uploader'')]\<rparr>
    \<and> emitted w (LogAttrs h Background LevelError ''m'' [slog_String ''time'' ''noon''] rt0 w) =
        [Handle h Background (NewRecord (Instant 1) LevelError ''m'' [slog_String ''time'' ''noon''])]
    \<and> encoding (Handle h Background (NewRecord (Instant 1) LevelError ''m'' [slog_String ''time'' ''noon''])) = Text
    \<and> ''time'' \<notin> keys (line_fields (Handle h Background (NewRecord (Instant 1) LevelError ''m'' [slog_String ''time'' ''noon''])))
    \<and> line_fields (Handle h Background (NewRecord (Instant 1) LevelError ''m'' [slog_String ''time'' ''noon''])) =
        [Attr ''level'' (LevelValue 8), Attr ''msg'' (StringValue ''m''),
         Attr ''component'' (StringValue ''uploader'')]"
proof -
  obtain p0 w1 p w h where
    n: "New ''development'' LevelDebug world0 = Returns p0 w1"
    and r: "derive [Component ''uploader''] p0 w1 = Returns p w"
    and d: "deref w p = Some h"
    and e: "emitted w (LogAttrs h Background LevelError ''m'' [slog_String ''time'' ''noon''] rt0 w) =
        (if LevelDebug \<le> LevelError
         then [Handle h Background (NewRecord (Instant (now rt0)) LevelError ''m'' [slog_String ''time'' ''noon''])]
         else [])"
    and k: "''development'' = ''development'' \<longrightarrow>
          encoding (Handle h Background (NewRecord (Instant (now rt0)) LevelError ''m'' [slog_String ''time'' ''noon''])) = Text
        \<and> ''time'' \<notin> keys (line_fields (Handle h Background (NewRecord (Instant (now rt0)) LevelError ''m'' [slog_String ''time'' ''noon''])))"
    using time_key_by_environment [of "''development''" LevelDebug world0 "[Component ''uploader'']"
        Background LevelError "''m''" "[slog_String ''time'' ''noon'']" rt0]
    by blast
  have n': "New ''development'' LevelDebug world0 =
          Returns 0 \<lparr>heap = [New_handler ''development'' LevelDebug], stdout = [], stack_calls = 0\<rparr>"
    by (simp add: New_def alloc_def world0_def)
  have r': "derive [Component ''uploader''] 0
              \<lparr>heap = [New_handler ''development'' LevelDebug], stdout = [], stack_calls = 0\<rparr> =
            Returns 1 \<lparr>heap = [New_handler ''development'' LevelDebug,
                                \<lparr>enc = Text, opts = \<lparr>Level = - 4, captured_env = ''development''\<rparr>,
                                 preformattedAttrs = [Attr ''component'' (StringValue ''uploader'')]\<rparr>],
                        stdout = [], stack_calls = 0\<rparr>"
    by (simp add: WithComponent_def deref_def alloc_def New_handler_def WithAttrs_def LevelDebug_def
        appendAttr_def appendAttrs_def ReplaceAttr_def isEmpty_def zero_Attr_def slog_String_def)
  from n n' have p0: "p0 = 0" and w1: "w1 = \<lparr>heap = [New_handler ''development'' LevelDebug], stdout = [], stack_calls = 0\<rparr>"
    by simp_all
  from r r' p0 w1 have p: "p = 1"
    and w: "w = \<lparr>heap = [New_handler ''development'' LevelDebug,
                                \<lparr>enc = Text, opts = \<lparr>Level = - 4, captured_env = ''development''\<rparr>,
                                 preformattedAttrs = [Attr ''component'' (StringValue ''uploader'')]\<rparr>],
                        stdout = [], stack_calls = 0\<rparr>"
    by simp_all
  from d p w have h: "h = \<lparr>enc = Text, opts = \<lparr>Level = - 4, captured_env = ''development''\<rparr>,
            preformattedAttrs = [Attr ''component'' (StringValue ''uploader'')]\<rparr>"
    by (simp add: deref_def)
  have f: "line_fields (Handle h Background (NewRecord (Instant 1) LevelError ''m'' [slog_String ''time'' ''noon''])) =
        [Attr ''level'' (LevelValue 8), Attr ''msg'' (StringValue ''m''),
         Attr ''component'' (StringValue ''uploader'')]"
    unfolding h
    by (simp add: Handle_def NewRecord_def LevelError_def
        appendAttr_def appendAttrs_def ReplaceAttr_def isEmpty_def zero_Attr_def slog_String_def)
  have e': "emitted w (LogAttrs h Background LevelError ''m'' [slog_String ''time'' ''noon''] rt0 w) =
        [Handle h Background (NewRecord (Instant 1) LevelError ''m'' [slog_String ''time'' ''noon''])]"
    using e by (simp add: LevelDebug_def LevelError_def rt0_def)
  have k': "encoding (Handle h Background (NewRecord (Instant 1) LevelError ''m'' [slog_String ''time'' ''noon''])) = Text
        \<and> ''time'' \<notin> keys (line_fields (Handle h Background (NewRecord (Instant 1) LevelError ''m'' [slog_String ''time'' ''noon''])))"
    using k by (simp add: rt0_def)
  from n r d h e' k' f show ?thesis by blast
qed

text \<open>
  Claim C1 as stated fails for an environment that is neither \<open>production\<close> nor
  \<open>development\<close>: the text line written under \<open>staging\<close> starts with the \<open>time\<close> field.
\<close>

theorem staging_line_has_time_counterexample:
  "New ''staging'' LevelInfo world0 = Returns 0 (world_with (New_handler ''staging'' LevelInfo))
   \<and> Error 0 ''m'' None [] rt0 (world_with (New_handler ''staging'' LevelInfo)) =
       Returns ()
         \<lparr>heap = [New_handler ''staging'' LevelInfo],
          stdout = [\<lparr>encoding = Text,
                     line_fields = [Attr ''time'' (TimeValue (Instant 1)),
                                    Attr ''level'' (LevelValue 8), Attr ''msg'' (StringValue ''m'')]\<rparr>],
          stack_calls = 0\<rparr>"
  by (simp add: New_def alloc_def world0_def Error_def deref_def LogAttrs_def Enabled_def world_with_def New_handler_def
      LevelInfo_def LevelError_def Handle_def NewRecord_def
      appendAttr_def appendAttrs_def ReplaceAttr_def isEmpty_def zero_Attr_def slog_String_def rt0_def)

end
